theory Spec2Isabelle
  imports Complex_Main "HOL-Library.Word" "HOL-Library.Char_ord" "HOL-Library.List_Lexorder"
    "HOL-Library.Multiset" "HOL-Library.AList" "HOL-Library.Signed_Division"
begin

section \<open>The statsd input plugin: parser, aggregation caches, flush\<close>

text \<open>
  The development follows the plugin source (\<^verbatim>\<open>package statsd\<close>): one metric line is parsed by
  \<^verbatim>\<open>parseStatsdLine\<close>, named by \<^verbatim>\<open>parseName\<close>, cached by \<^verbatim>\<open>aggregate\<close> and flushed by
  \<^verbatim>\<open>Gather\<close>.  Go maps are association lists with distinct keys (the order of the list stands for
  the unspecified iteration order of the map), \<^verbatim>\<open>int64\<close> and \<^verbatim>\<open>int\<close> are 64-bit words, a panic is
  a result of its own, the mutex is not modelled (every function below runs to completion), and
  each reading of \<^verbatim>\<open>time.Now()\<close> is an argument in nanoseconds.
\<close>

subsection \<open>Functions of package strings\<close>

fun strings_Split :: "string \<Rightarrow> char \<Rightarrow> string list" where
  "strings_Split [] sep = [[]]"
| "strings_Split (x # xs) sep =
     (if x = sep then [] # strings_Split xs sep
      else (case strings_Split xs sep of
              [] \<Rightarrow> [[x]]
            | y # ys \<Rightarrow> (x # y) # ys))"

fun strings_Join :: "string list \<Rightarrow> string \<Rightarrow> string" where
  "strings_Join [] sep = []"
| "strings_Join [x] sep = x"
| "strings_Join (x # y # ys) sep = x @ sep @ strings_Join (y # ys) sep"

definition strings_HasPrefix :: "string \<Rightarrow> string \<Rightarrow> bool" where
  "strings_HasPrefix s p = (take (length p) s = p)"

fun strings_Contains :: "string \<Rightarrow> string \<Rightarrow> bool" where
  "strings_Contains [] sub = (sub = [])"
| "strings_Contains (x # xs) sub = (strings_HasPrefix (x # xs) sub \<or> strings_Contains xs sub)"

definition strings_ReplaceAll :: "string \<Rightarrow> char \<Rightarrow> string \<Rightarrow> string" where
  "strings_ReplaceAll s old new = concat (map (\<lambda>c. if c = old then new else [c]) s)"

text \<open>The ASCII white space of \<^verbatim>\<open>strings.TrimSpace\<close>: tab, newline, vertical tab, form feed,
  carriage return and space (the two-byte UTF-8 spaces are left alone).\<close>

definition asciiSpace :: "char \<Rightarrow> bool" where
  "asciiSpace c = (c = CHR 0x09 \<or> c = CHR 0x0A \<or> c = CHR 0x0B \<or> c = CHR 0x0C \<or> c = CHR 0x0D
                   \<or> c = CHR 0x20)"

definition strings_TrimSpace :: "string \<Rightarrow> string" where
  "strings_TrimSpace s = rev (dropWhile asciiSpace (rev (dropWhile asciiSpace s)))"

subsection \<open>The two regular expressions of the upstream sanitizer\<close>

text \<open>\<^verbatim>\<open>\s\<close> is tab, newline, form feed, carriage return and space; every maximal run of it is
  replaced by one underscore.\<close>

definition whitespace_class :: "char \<Rightarrow> bool" where
  "whitespace_class c = (c = CHR 0x09 \<or> c = CHR 0x0A \<or> c = CHR 0x0C \<or> c = CHR 0x0D \<or> c = CHR 0x20)"

fun whitespace_ReplaceAll :: "bool \<Rightarrow> string \<Rightarrow> string" where
  "whitespace_ReplaceAll inrun [] = []"
| "whitespace_ReplaceAll inrun (x # xs) =
     (if whitespace_class x
      then (if inrun then whitespace_ReplaceAll True xs
            else CHR ''_'' # whitespace_ReplaceAll True xs)
      else x # whitespace_ReplaceAll False xs)"

definition allowedChar :: "char \<Rightarrow> bool" where
  "allowedChar c =
     ((CHR ''a'' \<le> c \<and> c \<le> CHR ''z'') \<or> (CHR ''A'' \<le> c \<and> c \<le> CHR ''Z'') \<or> c = CHR ''_''
      \<or> c = CHR ''-'' \<or> (CHR ''0'' \<le> c \<and> c \<le> CHR ''9'') \<or> c = CHR ''.'' \<or> c = CHR '';''
      \<or> c = CHR ''='')"

subsection \<open>strconv.ParseInt(s, 10, 64)\<close>

definition digit_val :: "char \<Rightarrow> int option" where
  "digit_val c = (if CHR ''0'' \<le> c \<and> c \<le> CHR ''9'' then Some (of_char c - 48) else None)"

fun digits_val :: "int \<Rightarrow> string \<Rightarrow> int option" where
  "digits_val acc [] = Some acc"
| "digits_val acc (c # cs) =
     (case digit_val c of None \<Rightarrow> None | Some d \<Rightarrow> digits_val (10 * acc + d) cs)"

text \<open>The result is \<open>None\<close> whenever Go returns a non-nil error: the empty string, a sign with no
  digit, a character that is no decimal digit, a value outside of \<^verbatim>\<open>int64\<close>.\<close>

definition ParseInt :: "string \<Rightarrow> 64 word option" where
  "ParseInt s =
     (case s of
        [] \<Rightarrow> None
      | c # cs \<Rightarrow>
         (let neg = (c = CHR ''-'');
              ds = (if c = CHR ''+'' \<or> c = CHR ''-'' then cs else s)
          in if ds = [] then None
             else (case digits_val 0 ds of
                     None \<Rightarrow> None
                   | Some un \<Rightarrow>
                       if \<not> neg \<and> un \<ge> 2 ^ 63 then None
                       else if neg \<and> un > 2 ^ 63 then None
                       else Some (if neg then - word_of_int un else word_of_int un))))"

subsection \<open>Data\<close>

type_synonym tagmap = "(string \<times> string) list"

text \<open>A value of type \<^verbatim>\<open>interface{}\<close> in a field map: the three dynamic types the plugin stores.\<close>

datatype 'f val = Int64 "64 word" | Float64 'f | Str string

datatype error = errParsing | errOther string

datatype 'a outcome = Return 'a | Panic string

datatype level = Errorf | Debugf | Infof

datatype logarg = S string | I int

type_synonym logline = "level \<times> string \<times> logarg list"

record 'f metric =
  name :: string
  field :: string
  bucket :: string
  hash :: string
  intvalue :: "64 word"
  floatvalue :: 'f
  strvalue :: string
  mtype :: string
  additive :: bool
  samplerate :: 'f
  tags :: tagmap

text \<open>\<^verbatim>\<open>cachedset\<close>, \<^verbatim>\<open>cachedgauge\<close>, \<^verbatim>\<open>cachedcounter\<close> and \<^verbatim>\<open>cachedtimings\<close> are the same struct
  up to the type of the field values; the selectors carry a \<open>c\<close> since a record of this theory
  cannot reuse \<open>name\<close> and \<open>tags\<close>, nor call a selector \<open>fields\<close>.\<close>

record 'a cached =
  cname :: string
  cfields :: "(string \<times> 'a) list"
  ctags :: tagmap
  expiresAt :: int

record 'f cacheddistributions =
  dname :: string
  dvalue :: 'f
  dtags :: tagmap

text \<open>What the accumulator receives.\<close>

datatype 'f emission =
    AddFields string "(string \<times> 'f val) list" tagmap int
  | AddGauge string "(string \<times> 'f val) list" tagmap int
  | AddCounter string "(string \<times> 'f val) list" tagmap int

text \<open>
  The code this plugin calls but which is not part of its own file: \<^verbatim>\<open>float64\<close> and its
  operations, \<^verbatim>\<open>strconv.ParseFloat\<close>, the formatting of numbers and times, the graphite template
  parser, \<^verbatim>\<open>runningStats\<close> (\<^verbatim>\<open>addValue\<close> draws random numbers, here it is a function), and the
  DataDog tag and event parsers.  Every function of the plugin takes them as its first argument.
\<close>

record ('f, 'rs) externals =
  ParseFloat :: "string \<Rightarrow> 'f option"
  float64_of_int64 :: "64 word \<Rightarrow> 'f"
  int64_of_float64 :: "'f \<Rightarrow> 64 word"
  fdiv :: "'f \<Rightarrow> 'f \<Rightarrow> 'f"
  fadd :: "'f \<Rightarrow> 'f \<Rightarrow> 'f"
  feq :: "'f \<Rightarrow> 'f \<Rightarrow> bool"
  flt :: "'f \<Rightarrow> 'f \<Rightarrow> bool"
  f0 :: 'f
  f1 :: 'f
  format_v :: "'f \<Rightarrow> string"
  format_RFC3339 :: "int \<Rightarrow> string"
  graphite_Init :: "string \<Rightarrow> string list \<Rightarrow> bool"
  ApplyTemplate :: "string \<times> string list \<Rightarrow> tagmap \<Rightarrow> string \<Rightarrow> string \<times> tagmap \<times> string"
  newRunningStats :: "64 word \<Rightarrow> 'rs"
  addValue :: "'f \<Rightarrow> 'rs \<Rightarrow> 'rs"
  mean :: "'rs \<Rightarrow> 'f"
  median :: "'rs \<Rightarrow> 'f"
  stddev :: "'rs \<Rightarrow> 'f"
  sum :: "'rs \<Rightarrow> 'f"
  upper :: "'rs \<Rightarrow> 'f"
  lower :: "'rs \<Rightarrow> 'f"
  count :: "'rs \<Rightarrow> 64 word"
  percentile :: "'rs \<Rightarrow> 'f \<Rightarrow> 'f"
  parseDataDogTags :: "tagmap \<Rightarrow> string \<Rightarrow> tagmap"
  parseEventMessage :: "int \<Rightarrow> string \<Rightarrow> string \<Rightarrow> string option"

text \<open>The struct \<^verbatim>\<open>Statsd\<close>: the options, then the state.  The listeners, the channels, the buffer
  pool and the self statistics are left out; \<open>logged\<close> collects the calls of \<^verbatim>\<open>s.Log\<close>.\<close>

record ('f, 'rs) Statsd =
  AllowedPendingMessages :: "64 word"
  Percentiles :: "'f list"
  PercentileLimit :: "64 word"
  DeleteGauges :: bool
  DeleteCounters :: bool
  DeleteSets :: bool
  DeleteTimings :: bool
  ConvertNames :: bool
  FloatCounters :: bool
  FloatTimings :: bool
  FloatSets :: bool
  EnableAggregationTemporality :: bool
  MetricSeparator :: string
  DataDogExtensions :: bool
  DataDogDistributions :: bool
  DataDogKeepContainerTag :: bool
  SanitizeNamesMethod :: string
  Templates :: "string list"
  MaxTTL :: int
  drops :: "64 word"
  gauges :: "(string \<times> 'f val cached) list"
  counters :: "(string \<times> 'f val cached) list"
  sets :: "(string \<times> (string \<times> bool) list cached) list"
  timings :: "(string \<times> 'rs cached) list"
  distributions :: "'f cacheddistributions list"
  graphiteParser :: "(string \<times> string list) option"
  lastGatherTime :: int
  logged :: "logline list"

definition Log :: "level \<Rightarrow> string \<Rightarrow> logarg list \<Rightarrow> ('f, 'rs) Statsd \<Rightarrow> ('f, 'rs) Statsd" where
  "Log l fmt args s = s\<lparr>logged := logged s @ [(l, fmt, args)]\<rparr>"

definition defaultFieldName :: string where
  "defaultFieldName = ''value''"

subsection \<open>parseKeyValue and parseName\<close>

definition parseKeyValue :: "string \<Rightarrow> string \<times> string" where
  "parseKeyValue keyValue =
     (let split = strings_Split keyValue CHR ''=''
      in if length split = 2 then (split ! 0, split ! 1)
         else if length split = 1 then ([], split ! 0)
         else if length split > 2 then (split ! 0, strings_Join (tl split) ''='')
         else ([], []))"

definition bucketTags :: "string list \<Rightarrow> tagmap" where
  "bucketTags bucketparts =
     fold (\<lambda>btag tgs. let (k, v) = parseKeyValue btag
                       in if k \<noteq> [] then AList.update k v tgs else tgs)
          (tl bucketparts) []"

definition sanitizeName :: "('f, 'rs) Statsd \<Rightarrow> string \<Rightarrow> string \<times> ('f, 'rs) Statsd" where
  "sanitizeName s nm =
     (if SanitizeNamesMethod s = [] then (nm, s)
      else if SanitizeNamesMethod s = ''upstream'' then
        (filter allowedChar
           (strings_ReplaceAll (whitespace_ReplaceAll False nm) (CHR ''/'') ''-''), s)
      else (nm, Log Errorf ''Unknown sanitizae name method: %s'' [S (SanitizeNamesMethod s)] s))"

text \<open>\<^verbatim>\<open>parseName\<close> returns name, field and tags; it also stores the graphite parser it builds
  (a pair of separator and templates), also when \<^verbatim>\<open>Init\<close> failed.\<close>

definition parseName ::
  "('f, 'rs) externals \<Rightarrow> ('f, 'rs) Statsd \<Rightarrow> string \<Rightarrow> (string \<times> string \<times> tagmap) \<times> ('f, 'rs) Statsd"
where
  "parseName X s bckt =
     (let bucketparts = strings_Split bckt (CHR '','');
          tgs = bucketTags bucketparts;
          (nm, s) = sanitizeName s (bucketparts ! 0);
          fresh = (MetricSeparator s, Templates s);
          (p, ok) = (case graphiteParser s of
                       None \<Rightarrow> (fresh, graphite_Init X (MetricSeparator s) (Templates s))
                     | Some q \<Rightarrow>
                         if fst q \<noteq> MetricSeparator s
                         then (fresh, graphite_Init X (MetricSeparator s) (Templates s))
                         else (q, True));
          s = s\<lparr>graphiteParser := Some p\<rparr>;
          (nm, tgs, fld) = (if ok then ApplyTemplate X p tgs nm else (nm, tgs, []));
          nm = (if ConvertNames s
                then strings_ReplaceAll (strings_ReplaceAll nm (CHR ''.'') ''_'') (CHR ''-'') ''__''
                else nm);
          fld = (if fld = [] then defaultFieldName else fld)
      in ((nm, fld, tgs), s))"

subsection \<open>aggregate\<close>

text \<open>A fresh cache entry; \<^verbatim>\<open>expiresAt\<close> is written before the entry is stored.\<close>

definition newCached :: "'f metric \<Rightarrow> 'a cached" where
  "newCached m = \<lparr>cname = name m, cfields = [], ctags = tags m, expiresAt = 0\<rparr>"

text \<open>The number of rounds of \<^verbatim>\<open>for i := 0; i < int(1.0/m.samplerate); i++\<close>.\<close>

definition timingRounds :: "('f, 'rs) externals \<Rightarrow> 'f \<Rightarrow> nat" where
  "timingRounds X rate =
     (if flt X (f0 X) rate then nat (sint (int64_of_float64 X (fdiv X (f1 X) rate))) else 1)"

definition aggregate ::
  "('f, 'rs) externals \<Rightarrow> int \<Rightarrow> ('f, 'rs) Statsd \<Rightarrow> 'f metric \<Rightarrow> ('f, 'rs) Statsd outcome"
where
  "aggregate X now s m =
     (if mtype m = ''d'' then
        (if DataDogExtensions s \<and> DataDogDistributions s
         then Return (s\<lparr>distributions := distributions s
                          @ [\<lparr>dname = name m, dvalue = floatvalue m, dtags = tags m\<rparr>]\<rparr>)
         else Return s)
      else if mtype m = ''ms'' \<or> mtype m = ''h'' then
        (let cached = (case map_of (timings s) (hash m) of
                         None \<Rightarrow> newCached m | Some c \<Rightarrow> c);
             fld = (case map_of (cfields cached) (field m) of
                      None \<Rightarrow> newRunningStats X (PercentileLimit s) | Some f \<Rightarrow> f);
             fld = (addValue X (floatvalue m) ^^ timingRounds X (samplerate m)) fld;
             cached = cached\<lparr>cfields := AList.update (field m) fld (cfields cached),
                             expiresAt := now + MaxTTL s\<rparr>
         in Return (s\<lparr>timings := AList.update (hash m) cached (timings s)\<rparr>))
      else if mtype m = ''c'' then
        (let cached = (case map_of (counters s) (hash m) of
                         None \<Rightarrow> newCached m | Some c \<Rightarrow> c);
             cached = (case map_of (cfields cached) (field m) of
                         None \<Rightarrow> cached\<lparr>cfields := AList.update (field m) (Int64 0) (cfields cached)\<rparr>
                       | Some v \<Rightarrow> cached)
         in case map_of (cfields cached) (field m) of
              Some (Int64 c) \<Rightarrow>
                (let cached = cached\<lparr>cfields := AList.update (field m) (Int64 (c + intvalue m))
                                                   (cfields cached),
                                     expiresAt := now + MaxTTL s\<rparr>
                 in Return (s\<lparr>counters := AList.update (hash m) cached (counters s)\<rparr>))
            | Some (Float64 c) \<Rightarrow>
                Panic ''interface conversion: interface {} is float64, not int64''
            | Some (Str c) \<Rightarrow>
                Panic ''interface conversion: interface {} is string, not int64''
            | None \<Rightarrow> Panic ''interface conversion: interface {} is nil, not int64'')
      else if mtype m = ''g'' then
        (let cached = (case map_of (gauges s) (hash m) of
                         None \<Rightarrow> newCached m | Some c \<Rightarrow> c);
             cached = (case map_of (cfields cached) (field m) of
                         None \<Rightarrow> cached\<lparr>cfields := AList.update (field m) (Float64 (f0 X)) (cfields cached)\<rparr>
                       | Some v \<Rightarrow> cached)
         in if additive m then
              (case map_of (cfields cached) (field m) of
                 Some (Float64 c) \<Rightarrow>
                   (let cached = cached\<lparr>cfields := AList.update (field m)
                                                      (Float64 (fadd X c (floatvalue m)))
                                                      (cfields cached),
                                        expiresAt := now + MaxTTL s\<rparr>
                    in Return (s\<lparr>gauges := AList.update (hash m) cached (gauges s)\<rparr>))
               | Some (Int64 c) \<Rightarrow>
                   Panic ''interface conversion: interface {} is int64, not float64''
               | Some (Str c) \<Rightarrow>
                   Panic ''interface conversion: interface {} is string, not float64''
               | None \<Rightarrow> Panic ''interface conversion: interface {} is nil, not float64'')
            else
              (let cached = cached\<lparr>cfields := AList.update (field m) (Float64 (floatvalue m))
                                                 (cfields cached),
                                   expiresAt := now + MaxTTL s\<rparr>
               in Return (s\<lparr>gauges := AList.update (hash m) cached (gauges s)\<rparr>)))
      else if mtype m = ''s'' then
        (let cached = (case map_of (sets s) (hash m) of
                         None \<Rightarrow> newCached m | Some c \<Rightarrow> c);
             st = (case map_of (cfields cached) (field m) of None \<Rightarrow> [] | Some x \<Rightarrow> x);
             cached = cached\<lparr>cfields := AList.update (field m)
                                            (AList.update (strvalue m) True st) (cfields cached),
                             expiresAt := now + MaxTTL s\<rparr>
         in Return (s\<lparr>sets := AList.update (hash m) cached (sets s)\<rparr>))
      else Return s)"

subsection \<open>parseStatsdLine\<close>

text \<open>Lines 612 to 634: with the DataDog extensions, the segments that start with \<open>#\<close> are tag
  lists, a segment that starts with \<open>c:\<close> is the container id, and the line is put together again
  from the other segments.\<close>

definition stripDataDog ::
  "('f, 'rs) externals \<Rightarrow> ('f, 'rs) Statsd \<Rightarrow> string \<Rightarrow> string \<times> tagmap"
where
  "stripDataDog X s line =
     (if DataDogExtensions s then
        (let pipesplit = strings_Split line (CHR ''|'');
             (recombinedSegments, lineTags) =
               fold (\<lambda>segment (segs, lt).
                       if length segment > 0 \<and> segment ! 0 = CHR ''#''
                       then (segs, parseDataDogTags X lt (drop 1 segment))
                       else if length segment > 0 \<and> strings_HasPrefix segment ''c:''
                       then (segs, if DataDogKeepContainerTag s
                                   then AList.update ''container'' (drop 2 segment) lt else lt)
                       else (segs @ [segment], lt))
                    pipesplit ([], [])
         in (strings_Join recombinedSegments ''|'', lineTags))
      else (line, []))"

text \<open>Lines 657 to 672: the sample rate of one value; an absent or unreadable rate leaves the zero
  value of the field.  Where the source logs the error text of \<^verbatim>\<open>strconv\<close>, the log of the model
  holds the string that could not be read.\<close>

definition parseSampleRate ::
  "('f, 'rs) externals \<Rightarrow> ('f, 'rs) Statsd \<Rightarrow> string \<Rightarrow> string list \<Rightarrow> 'f \<times> ('f, 'rs) Statsd"
where
  "parseSampleRate X s line pipesplit =
     (if length pipesplit > 2 then
        (let sr = pipesplit ! 2
         in if strings_Contains sr ''@'' \<and> length sr > 1 then
              (case ParseFloat X (drop 1 sr) of
                 None \<Rightarrow> (f0 X, Log Errorf ''Parsing sample rate: %s'' [S (drop 1 sr)] s)
               | Some rate \<Rightarrow> (rate, s))
            else (f0 X, Log Debugf
                    ''Sample rate must be in format like: @0.1, @0.5, etc. Ignoring sample rate for line: %s''
                    [S line] s))
      else (f0 X, s))"

text \<open>Lines 692 to 718: the value of the metric, by type; \<open>None\<close> is the return of
  \<^verbatim>\<open>errParsing\<close>.\<close>

definition parseValue ::
  "('f, 'rs) externals \<Rightarrow> ('f, 'rs) Statsd \<Rightarrow> string \<Rightarrow> string \<Rightarrow> 'f metric
     \<Rightarrow> 'f metric option \<times> ('f, 'rs) Statsd"
where
  "parseValue X s line raw m =
     (if mtype m = ''g'' \<or> mtype m = ''ms'' \<or> mtype m = ''h'' \<or> mtype m = ''d'' then
        (case ParseFloat X raw of
           None \<Rightarrow> (None, Log Errorf ''Parsing value to float64, unable to parse metric: %s''
                            [S line] s)
         | Some v \<Rightarrow> (Some (m\<lparr>floatvalue := v\<rparr>), s))
      else if mtype m = ''c'' then
        (let r = (case ParseInt raw of
                    Some v \<Rightarrow> Some v
                  | None \<Rightarrow> (case ParseFloat X raw of
                               None \<Rightarrow> None
                             | Some v2 \<Rightarrow> Some (int64_of_float64 X v2)))
         in case r of
              None \<Rightarrow> (None, Log Errorf ''Parsing value to int64, unable to parse metric: %s''
                               [S line] s)
            | Some v \<Rightarrow>
                (let v = (if \<not> feq X (samplerate m) (f0 X) \<and> mtype m = ''c''
                          then int64_of_float64 X (fdiv X (float64_of_int64 X v) (samplerate m))
                          else v)
                 in (Some (m\<lparr>intvalue := v\<rparr>), s)))
      else if mtype m = ''s'' then (Some (m\<lparr>strvalue := raw\<rparr>), s)
      else (Some m, s))"

text \<open>Lines 722 to 743: the tag \<open>metric_type\<close>, and \<open>temporality\<close> for a counter.\<close>

definition typeTags :: "('f, 'rs) Statsd \<Rightarrow> string \<Rightarrow> tagmap \<Rightarrow> tagmap" where
  "typeTags s mt tgs =
     (if mt = ''c'' then
        (let tgs = AList.update ''metric_type'' ''counter'' tgs
         in if EnableAggregationTemporality s then
              (if DeleteCounters s then AList.update ''temporality'' ''delta'' tgs
               else AList.update ''temporality'' ''cumulative'' tgs)
            else tgs)
      else if mt = ''g'' then AList.update ''metric_type'' ''gauge'' tgs
      else if mt = ''s'' then AList.update ''metric_type'' ''set'' tgs
      else if mt = ''ms'' then AList.update ''metric_type'' ''timing'' tgs
      else if mt = ''h'' then AList.update ''metric_type'' ''histogram'' tgs
      else if mt = ''d'' then AList.update ''metric_type'' ''distribution'' tgs
      else tgs)"

text \<open>Lines 750 to 757: the key of the caches.\<close>

definition make_hash :: "tagmap \<Rightarrow> string \<Rightarrow> string" where
  "make_hash tgs nm = strings_Join (sort (map (\<lambda>(k, v). k @ ''='' @ v) tgs) @ [nm]) []"

text \<open>Lines 720 to 757: name, field and tags of the metric (the tags of the bucket, the tags of
  the type, then the tags of the line, which win), and its key.\<close>

definition nameMetric ::
  "('f, 'rs) externals \<Rightarrow> ('f, 'rs) Statsd \<Rightarrow> tagmap \<Rightarrow> 'f metric \<Rightarrow> 'f metric \<times> ('f, 'rs) Statsd"
where
  "nameMetric X s lineTags m =
     (let ((nm, fld, tgs), s) = parseName X s (bucket m);
          tgs = typeTags s (mtype m) tgs;
          tgs = fold (\<lambda>(k, v). AList.update k v) lineTags tgs
      in (m\<lparr>name := nm, field := fld, tags := tgs, hash := make_hash tgs nm\<rparr>, s))"

text \<open>The zero value \<^verbatim>\<open>metric{}\<close>.\<close>

definition metric0 :: "('f, 'rs) externals \<Rightarrow> 'f metric" where
  "metric0 X = \<lparr>name = [], field = [], bucket = [], hash = [], intvalue = 0, floatvalue = f0 X,
                strvalue = [], mtype = [], additive = False, samplerate = f0 X, tags = []\<rparr>"

text \<open>The body of the loop over the values of a line, up to the call of \<^verbatim>\<open>aggregate\<close>: the
  metric to aggregate, or \<open>None\<close> where the source returns \<^verbatim>\<open>errParsing\<close>.\<close>

definition parseBit ::
  "('f, 'rs) externals \<Rightarrow> ('f, 'rs) Statsd \<Rightarrow> string \<Rightarrow> tagmap \<Rightarrow> string \<Rightarrow> string
     \<Rightarrow> 'f metric option \<times> ('f, 'rs) Statsd"
where
  "parseBit X s line lineTags bucketName bt =
     (let m = (metric0 X)\<lparr>bucket := bucketName\<rparr>;
          pipesplit = strings_Split bt (CHR ''|'')
      in if length pipesplit < 2 then
           (None, Log Errorf (''Splitting '' @ [CHR 0x27] @ ''|'' @ [CHR 0x27]
                               @ '', unable to parse metric: %s'') [S line] s)
         else
           (let (rate, s) = parseSampleRate X s line pipesplit;
                m = m\<lparr>samplerate := rate\<rparr>
            in if pipesplit ! 1 \<notin> set [''g'', ''c'', ''s'', ''ms'', ''h'', ''d''] then
                 (None, Log Errorf ''Metric type %q unsupported'' [S (pipesplit ! 1)] s)
               else
                 (let m = m\<lparr>mtype := pipesplit ! 1\<rparr>;
                      signed = (strings_HasPrefix (pipesplit ! 0) ''-''
                                \<or> strings_HasPrefix (pipesplit ! 0) ''+'')
                  in if signed \<and> mtype m \<noteq> ''g'' \<and> mtype m \<noteq> ''c'' then
                       (None, Log Errorf
                          ''+- values are only supported for gauges & counters, unable to parse metric: %s''
                          [S line] s)
                     else
                       (let m = (if signed then m\<lparr>additive := True\<rparr> else m)
                        in case parseValue X s line (pipesplit ! 0) m of
                             (None, s) \<Rightarrow> (None, s)
                           | (Some m, s) \<Rightarrow>
                               (let (m, s) = nameMetric X s lineTags m in (Some m, s))))))"

text \<open>The loop of lines 647 to 760; \<open>now i\<close> is the clock reading of \<^verbatim>\<open>aggregate\<close> for the value
  of index \<open>i\<close>.\<close>

fun parseBits ::
  "('f, 'rs) externals \<Rightarrow> (nat \<Rightarrow> int) \<Rightarrow> ('f, 'rs) Statsd \<Rightarrow> string \<Rightarrow> tagmap \<Rightarrow> string \<Rightarrow> nat
     \<Rightarrow> string list \<Rightarrow> (error option \<times> ('f, 'rs) Statsd) outcome"
where
  "parseBits X now s line lineTags bucketName i [] = Return (None, s)"
| "parseBits X now s line lineTags bucketName i (bt # bits) =
     (case parseBit X s line lineTags bucketName bt of
        (None, s) \<Rightarrow> Return (Some errParsing, s)
      | (Some m, s) \<Rightarrow>
          (case aggregate X (now i) s m of
             Panic msg \<Rightarrow> Panic msg
           | Return s \<Rightarrow> parseBits X now s line lineTags bucketName (Suc i) bits))"

definition parseStatsdLine ::
  "('f, 'rs) externals \<Rightarrow> (nat \<Rightarrow> int) \<Rightarrow> ('f, 'rs) Statsd \<Rightarrow> string
     \<Rightarrow> (error option \<times> ('f, 'rs) Statsd) outcome"
where
  "parseStatsdLine X now s line0 =
     (let (line, lineTags) = stripDataDog X s line0;
          bits = strings_Split line (CHR '':'')
      in if length bits < 2 then
           Return (Some errParsing,
                   Log Errorf (''Splitting '' @ [CHR 0x27] @ '':'' @ [CHR 0x27]
                                @ '', unable to parse metric: %s'') [S line] s)
         else parseBits X now s line lineTags (bits ! 0) 0 (tl bits))"

subsection \<open>Gather and expireCachedMetrics\<close>

definition startTime ::
  "('f, 'rs) externals \<Rightarrow> ('f, 'rs) Statsd \<Rightarrow> (string \<times> 'f val) list \<Rightarrow> (string \<times> 'f val) list"
where
  "startTime X s flds =
     (if EnableAggregationTemporality s
      then AList.update ''start_time'' (Str (format_RFC3339 X (lastGatherTime s))) flds
      else flds)"

definition distributionFields ::
  "('f, 'rs) externals \<Rightarrow> ('f, 'rs) Statsd \<Rightarrow> 'f cacheddistributions \<Rightarrow> (string \<times> 'f val) list"
where
  "distributionFields X s m = startTime X s [(defaultFieldName, Float64 (dvalue m))]"

definition timingFields ::
  "('f, 'rs) externals \<Rightarrow> ('f, 'rs) Statsd \<Rightarrow> 'rs cached \<Rightarrow> (string \<times> 'f val) list"
where
  "timingFields X s m =
     startTime X s
       (fold (\<lambda>(fieldName, stats) flds.
                let prefix = (if fieldName \<noteq> defaultFieldName then fieldName @ ''_'' else []);
                    flds = AList.update (prefix @ ''mean'') (Float64 (mean X stats)) flds;
                    flds = AList.update (prefix @ ''median'') (Float64 (median X stats)) flds;
                    flds = AList.update (prefix @ ''stddev'') (Float64 (stddev X stats)) flds;
                    flds = AList.update (prefix @ ''sum'') (Float64 (sum X stats)) flds;
                    flds = AList.update (prefix @ ''upper'') (Float64 (upper X stats)) flds;
                    flds = AList.update (prefix @ ''lower'') (Float64 (lower X stats)) flds;
                    flds = AList.update (prefix @ ''count'')
                             (if FloatTimings s
                              then Float64 (float64_of_int64 X (count X stats))
                              else Int64 (count X stats)) flds
                in fold (\<lambda>p. AList.update (prefix @ format_v X p @ ''_percentile'')
                                (Float64 (percentile X stats p)))
                        (Percentiles s) flds)
             (cfields m) [])"

definition setFields ::
  "('f, 'rs) externals \<Rightarrow> ('f, 'rs) Statsd \<Rightarrow> (string \<times> bool) list cached \<Rightarrow> (string \<times> 'f val) list"
where
  "setFields X s m =
     startTime X s
       (fold (\<lambda>(fld, st). AList.update fld
                 (if FloatSets s then Float64 (float64_of_int64 X (word_of_nat (length st)))
                  else Int64 (word_of_nat (length st))))
             (cfields m) [])"

text \<open>Lines 400 to 404: every field of a counter entry is asserted to be an \<^verbatim>\<open>int64\<close> and is
  overwritten, in the map of the cache entry itself, by its \<^verbatim>\<open>float64\<close>.\<close>

fun floatFields ::
  "('f, 'rs) externals \<Rightarrow> (string \<times> 'f val) list \<Rightarrow> (string \<times> 'f val) list outcome"
where
  "floatFields X [] = Return []"
| "floatFields X ((key, v) # rest) =
     (case v of
        Int64 i \<Rightarrow>
          (case floatFields X rest of
             Panic msg \<Rightarrow> Panic msg
           | Return r \<Rightarrow> Return ((key, Float64 (float64_of_int64 X i)) # r))
      | Float64 x \<Rightarrow> Panic ''interface conversion: interface {} is float64, not int64''
      | Str x \<Rightarrow> Panic ''interface conversion: interface {} is string, not int64'')"

text \<open>The loop over \<^verbatim>\<open>s.counters\<close>: what is emitted, and the entries as the loop leaves them.\<close>

fun gatherCounters ::
  "('f, 'rs) externals \<Rightarrow> ('f, 'rs) Statsd \<Rightarrow> int \<Rightarrow> (string \<times> 'f val cached) list
     \<Rightarrow> ('f emission list \<times> (string \<times> 'f val cached) list) outcome"
where
  "gatherCounters X s now [] = Return ([], [])"
| "gatherCounters X s now ((h, m) # rest) =
     (let m = m\<lparr>cfields := startTime X s (cfields m)\<rparr>
      in case (if FloatCounters s then floatFields X (cfields m) else Return (cfields m)) of
           Panic msg \<Rightarrow> Panic msg
         | Return flds \<Rightarrow>
             (let m = m\<lparr>cfields := flds\<rparr>
              in case gatherCounters X s now rest of
                   Panic msg \<Rightarrow> Panic msg
                 | Return (out, cs) \<Rightarrow>
                     Return (AddCounter (cname m) (cfields m) (ctags m) now # out, (h, m) # cs)))"

definition expireCachedMetrics :: "int \<Rightarrow> ('f, 'rs) Statsd \<Rightarrow> ('f, 'rs) Statsd" where
  "expireCachedMetrics now s =
     (if MaxTTL s = 0 then s
      else s\<lparr>gauges := filter (\<lambda>(key, cached). \<not> now > expiresAt cached) (gauges s),
              sets := filter (\<lambda>(key, cached). \<not> now > expiresAt cached) (sets s),
              timings := filter (\<lambda>(key, cached). \<not> now > expiresAt cached) (timings s),
              counters := filter (\<lambda>(key, cached). \<not> now > expiresAt cached) (counters s)\<rparr>)"

text \<open>\<open>now\<close> is the clock reading of \<^verbatim>\<open>Gather\<close>, \<open>now'\<close> the later one of
  \<^verbatim>\<open>expireCachedMetrics\<close>.  The result is what the accumulator received, in order, and the new
  state.\<close>

definition Gather ::
  "('f, 'rs) externals \<Rightarrow> int \<Rightarrow> int \<Rightarrow> ('f, 'rs) Statsd
     \<Rightarrow> ('f emission list \<times> ('f, 'rs) Statsd) outcome"
where
  "Gather X now now' s =
     (let out1 = map (\<lambda>m. AddFields (dname m) (distributionFields X s m) (dtags m) now)
                     (distributions s);
          s = s\<lparr>distributions := []\<rparr>;
          out2 = map (\<lambda>(h, m). AddFields (cname m) (timingFields X s m) (ctags m) now) (timings s);
          s = (if DeleteTimings s then s\<lparr>timings := []\<rparr> else s);
          gs = map (\<lambda>(h, m). (h, m\<lparr>cfields := startTime X s (cfields m)\<rparr>)) (gauges s);
          out3 = map (\<lambda>(h, m). AddGauge (cname m) (cfields m) (ctags m) now) gs;
          s = s\<lparr>gauges := (if DeleteGauges s then [] else gs)\<rparr>
      in case gatherCounters X s now (counters s) of
           Panic msg \<Rightarrow> Panic msg
         | Return (out4, cs) \<Rightarrow>
             (let s = s\<lparr>counters := (if DeleteCounters s then [] else cs)\<rparr>;
                  out5 = map (\<lambda>(h, m). AddFields (cname m) (setFields X s m) (ctags m) now) (sets s);
                  s = (if DeleteSets s then s\<lparr>sets := []\<rparr> else s);
                  s = expireCachedMetrics now' s;
                  s = s\<lparr>lastGatherTime := now\<rparr>
              in Return (out1 @ out2 @ out3 @ out4 @ out5, s)))"

subsection \<open>The listeners when the queue is full\<close>

definition queueFull :: string where
  "queueFull = ''Statsd message queue full. We have dropped %d messages so far. You may want to increase allowed_pending_messages in the config''"

text \<open>The \<^verbatim>\<open>default\<close> branch of the \<^verbatim>\<open>select\<close> in \<^verbatim>\<open>udpListen\<close> (lines 554 to 561) and in
  \<^verbatim>\<open>handler\<close> (lines 996 to 1002).  The remainder of Go truncates towards zero and panics on a
  zero divisor.\<close>

definition udpListen_default :: "('f, 'rs) Statsd \<Rightarrow> ('f, 'rs) Statsd outcome" where
  "udpListen_default s =
     (let s = s\<lparr>drops := drops s + 1\<rparr>
      in if drops s = 1 \<or> AllowedPendingMessages s = 0
            \<or> sint (drops s) smod sint (AllowedPendingMessages s) = 0
         then Return (Log Errorf queueFull [I (sint (drops s))] s)
         else Return s)"

definition handler_default :: "('f, 'rs) Statsd \<Rightarrow> ('f, 'rs) Statsd outcome" where
  "handler_default s =
     (let s = s\<lparr>drops := drops s + 1\<rparr>
      in if drops s = 1 then Return (Log Errorf queueFull [I (sint (drops s))] s)
         else if AllowedPendingMessages s = 0 then
           Panic ''runtime error: integer divide by zero''
         else if sint (drops s) smod sint (AllowedPendingMessages s) = 0 then
           Return (Log Errorf queueFull [I (sint (drops s))] s)
         else Return s)"

subsection \<open>The worker\<close>

text \<open>The loop over the lines of one queued input (lines 580 to 601); \<open>now i\<close> is the clock of
  line \<open>i\<close>.  The result \<open>None\<close> says that the worker goes on to wait for the next input,
  \<open>Some err\<close> that it returns \<open>err\<close>.  The event parser is not part of the sources at hand; it
  is called for its error only.\<close>

fun parser_lines ::
  "('f, 'rs) externals \<Rightarrow> (nat \<Rightarrow> nat \<Rightarrow> int) \<Rightarrow> ('f, 'rs) Statsd \<Rightarrow> int \<Rightarrow> string \<Rightarrow> nat
     \<Rightarrow> string list \<Rightarrow> (error option \<times> ('f, 'rs) Statsd) outcome"
where
  "parser_lines X now s t addr i [] = Return (None, s)"
| "parser_lines X now s t addr i (line0 # lines) =
     (let line = strings_TrimSpace line0
      in if line = [] then parser_lines X now s t addr (Suc i) lines
         else if DataDogExtensions s \<and> strings_HasPrefix line ''_e'' then
           (case parseEventMessage X t line addr of
              Some err \<Rightarrow>
                parser_lines X now
                  (Log Debugf ''  line was: %s'' [S line]
                     (Log Errorf ''Parsing line failed: %v'' [S err] s))
                  t addr (Suc i) lines
            | None \<Rightarrow> parser_lines X now s t addr (Suc i) lines)
         else
           (case parseStatsdLine X (now i) s line of
              Panic msg \<Rightarrow> Panic msg
            | Return (None, s) \<Rightarrow> parser_lines X now s t addr (Suc i) lines
            | Return (Some err, s) \<Rightarrow>
                if err \<noteq> errParsing then Return (Some err, s)
                else parser_lines X now s t addr (Suc i) lines))"

definition parser_input ::
  "('f, 'rs) externals \<Rightarrow> (nat \<Rightarrow> nat \<Rightarrow> int) \<Rightarrow> ('f, 'rs) Statsd \<Rightarrow> string \<times> int \<times> string
     \<Rightarrow> (error option \<times> ('f, 'rs) Statsd) outcome"
where
  "parser_input X now s inp =
     (case inp of (buffer, t, addr) \<Rightarrow>
        parser_lines X now s t addr 0 (strings_Split buffer (CHR 0x0A)))"

subsection \<open>The plugin as registered and started\<close>

text \<open>The options of \<^verbatim>\<open>init\<close> (every other option has its zero value), then the state that
  \<^verbatim>\<open>Start\<close> builds at time \<open>t\<close>.\<close>

definition started :: "int \<Rightarrow> ('f, 'rs) Statsd" where
  "started t =
     \<lparr>AllowedPendingMessages = 10000, Percentiles = [], PercentileLimit = 0,
      DeleteGauges = True, DeleteCounters = True, DeleteSets = True, DeleteTimings = True,
      ConvertNames = False, FloatCounters = False, FloatTimings = False, FloatSets = False,
      EnableAggregationTemporality = False, MetricSeparator = ''_'',
      DataDogExtensions = False, DataDogDistributions = False, DataDogKeepContainerTag = False,
      SanitizeNamesMethod = [], Templates = [], MaxTTL = 0, drops = 0,
      gauges = [], counters = [], sets = [], timings = [], distributions = [],
      graphiteParser = None, lastGatherTime = t, logged = []\<rparr>"

subsection \<open>An instance of the external code, for evaluation\<close>

text \<open>
  Exact arithmetic on the rationals stands for \<^verbatim>\<open>float64\<close> (no rounding, no NaN, no infinity; the
  conversion to \<^verbatim>\<open>int64\<close> drops the fraction), \<^verbatim>\<open>ParseFloat\<close> reads the plain decimal literals
  (sign, digits, point, digits), the graphite parser has no template and returns the name and
  the tags it is given with an empty field, a \<^verbatim>\<open>runningStats\<close> is the list of the values added
  to it (its standard deviation, which need not be rational, is not computed and reads 0), and
  the DataDog parsers accept nothing.  It is used on concrete inputs only, where the
  general statements below hold for every instance.
\<close>

definition ParseFloat_decimal :: "string \<Rightarrow> rat option" where
  "ParseFloat_decimal s =
     (let neg = strings_HasPrefix s ''-'';
          body = (if neg \<or> strings_HasPrefix s ''+'' then drop 1 s else s);
          ip = takeWhile (\<lambda>c. c \<noteq> CHR ''.'') body;
          fp = drop 1 (dropWhile (\<lambda>c. c \<noteq> CHR ''.'') body)
      in if ip @ fp = [] then None
         else (case (digits_val 0 ip, digits_val 0 fp) of
                 (Some a, Some b) \<Rightarrow>
                   Some ((if neg then - 1 else 1) * (of_int a + of_int b / 10 ^ length fp))
               | _ \<Rightarrow> None))"

definition truncate64 :: "rat \<Rightarrow> 64 word" where
  "truncate64 x = word_of_int (if 0 \<le> x then \<lfloor>x\<rfloor> else \<lceil>x\<rceil>)"

fun decimal :: "nat \<Rightarrow> string" where
  "decimal n = (if n < 10 then [char_of (48 + n)]
                else decimal (n div 10) @ [char_of (48 + n mod 10)])"

definition decimal_int :: "int \<Rightarrow> string" where
  "decimal_int i = (if i < 0 then ''-'' @ decimal (nat (- i)) else decimal (nat i))"

text \<open>Modelled from the spec: \<^verbatim>\<open>runningStats\<close>, whose source file is not at hand.  The percentile
  is the element of index \<open>floor (p / 100 * (n - 1))\<close> of the sorted values and 0 when there is
  none, the median is the percentile 50, the mean is the sum over the count; the limit of the
  reservoir is not modelled.\<close>

definition stats_percentile :: "rat list \<Rightarrow> rat \<Rightarrow> rat" where
  "stats_percentile xs p =
     (if xs = [] then 0 else sort xs ! nat \<lfloor>p / 100 * of_nat (length xs - 1)\<rfloor>)"

definition stats_mean :: "rat list \<Rightarrow> rat" where
  "stats_mean xs = (if xs = [] then 0 else sum_list xs / of_nat (length xs))"

definition exact :: "(rat, rat list) externals" where
  "exact =
     \<lparr>ParseFloat = ParseFloat_decimal,
      float64_of_int64 = (\<lambda>w. of_int (sint w)),
      int64_of_float64 = truncate64,
      fdiv = (\<lambda>x y. x / y),
      fadd = (\<lambda>x y. x + y),
      feq = (\<lambda>x y. x = y),
      flt = (\<lambda>x y. x < y),
      f0 = 0,
      f1 = 1,
      format_v = (\<lambda>x. decimal_int \<lfloor>x\<rfloor>),
      format_RFC3339 = decimal_int,
      graphite_Init = (\<lambda>sep tmpl. True),
      ApplyTemplate = (\<lambda>p tgs nm. (nm, tgs, [])),
      newRunningStats = (\<lambda>percLimit. []),
      addValue = (\<lambda>x xs. xs @ [x]),
      mean = stats_mean,
      median = (\<lambda>xs. stats_percentile xs 50),
      stddev = (\<lambda>xs. 0),
      sum = sum_list,
      upper = (\<lambda>xs. fold max xs (if xs = [] then 0 else xs ! 0)),
      lower = (\<lambda>xs. fold min xs (if xs = [] then 0 else xs ! 0)),
      count = (\<lambda>xs. word_of_nat (length xs)),
      percentile = stats_percentile,
      parseDataDogTags = (\<lambda>tgs message. tgs),
      parseEventMessage = (\<lambda>t line addr. Some ''not an event'')\<rparr>"

subsection \<open>Notions used in the statements\<close>

text \<open>One outcome after the other: a panic ends the run.\<close>

definition andThen :: "'a outcome \<Rightarrow> ('a \<Rightarrow> 'b outcome) \<Rightarrow> 'b outcome" where
  "andThen r f = (case r of Panic msg \<Rightarrow> Panic msg | Return x \<Rightarrow> f x)"

text \<open>Clocks that stand still: every reading is \<open>t\<close>.\<close>

definition clock :: "int \<Rightarrow> nat \<Rightarrow> int" where
  "clock t i = t"

definition clock2 :: "int \<Rightarrow> nat \<Rightarrow> nat \<Rightarrow> int" where
  "clock2 t i j = t"

text \<open>The value of one field of one cache entry.\<close>

definition cache_field :: "(string \<times> 'a cached) list \<Rightarrow> string \<Rightarrow> string \<Rightarrow> 'a option" where
  "cache_field cache h f =
     (case map_of cache h of None \<Rightarrow> None | Some c \<Rightarrow> map_of (cfields c) f)"

text \<open>The four caches and the distribution list.\<close>

definition caches ::
  "('f, 'rs) Statsd \<Rightarrow>
     (string \<times> 'f val cached) list \<times> (string \<times> 'f val cached) list
     \<times> (string \<times> (string \<times> bool) list cached) list \<times> (string \<times> 'rs cached) list
     \<times> 'f cacheddistributions list"
where
  "caches s = (gauges s, counters s, sets s, timings s, distributions s)"

text \<open>A sequence of calls of \<^verbatim>\<open>aggregate\<close>, the call of index \<open>i\<close> at time \<open>now i\<close>.\<close>

fun aggregate_all ::
  "('f, 'rs) externals \<Rightarrow> (nat \<Rightarrow> int) \<Rightarrow> nat \<Rightarrow> ('f, 'rs) Statsd \<Rightarrow> 'f metric list
     \<Rightarrow> ('f, 'rs) Statsd outcome"
where
  "aggregate_all X now i s [] = Return s"
| "aggregate_all X now i s (m # ms) =
     andThen (aggregate X (now i) s m) (\<lambda>s. aggregate_all X now (Suc i) s ms)"



text \<open>Two states that differ at most in the log and in that the second has the empty sanitize
  method; two runs that end alike: in the same panic, or with the same error value and the same
  caches.\<close>

definition alike :: "('f, 'rs) Statsd \<Rightarrow> ('f, 'rs) Statsd \<Rightarrow> bool" where
  "alike s t = (t = s\<lparr>logged := logged t, SanitizeNamesMethod := []\<rparr>)"

definition same_outcome ::
  "(error option \<times> ('f, 'rs) Statsd) outcome \<Rightarrow> (error option \<times> ('f, 'rs) Statsd) outcome \<Rightarrow> bool"
where
  "same_outcome r1 r2 =
     (case r1 of
        Return (e1, s1) \<Rightarrow>
          (case r2 of Return (e2, s2) \<Rightarrow> e1 = e2 \<and> caches s1 = caches s2 | Panic q \<Rightarrow> False)
      | Panic p \<Rightarrow> (case r2 of Return x \<Rightarrow> False | Panic q \<Rightarrow> p = q))"

text \<open>What a run returned: the state, and the error value.\<close>

definition returned_state :: "('e \<times> 's) outcome \<Rightarrow> 's option" where
  "returned_state r = (case r of Return (e, s) \<Rightarrow> Some s | Panic msg \<Rightarrow> None)"

definition returned_error :: "('e \<times> 's) outcome \<Rightarrow> 'e option" where
  "returned_error r = (case r of Return (e, s) \<Rightarrow> Some e | Panic msg \<Rightarrow> None)"

text \<open>The values of a line, and \<^verbatim>\<open>parseStatsdLine\<close> cut off after the first \<open>k\<close> of them.\<close>

definition lineValues :: "('f, 'rs) externals \<Rightarrow> ('f, 'rs) Statsd \<Rightarrow> string \<Rightarrow> string list" where
  "lineValues X s line0 = tl (strings_Split (fst (stripDataDog X s line0)) (CHR '':''))"

definition parseValues ::
  "('f, 'rs) externals \<Rightarrow> (nat \<Rightarrow> int) \<Rightarrow> ('f, 'rs) Statsd \<Rightarrow> string \<Rightarrow> nat
     \<Rightarrow> (error option \<times> ('f, 'rs) Statsd) outcome"
where
  "parseValues X now s line0 k =
     (let (line, lineTags) = stripDataDog X s line0;
          bits = strings_Split line (CHR '':'')
      in parseBits X now s line lineTags (bits ! 0) 0 (take k (tl bits)))"

text \<open>Samples for the examples: a gauge sample for the entry \<open>load\<close>, a timing sample for the
  entry \<open>rt\<close>, a counter sample for the entry \<open>b\<close>, as \<^verbatim>\<open>parseStatsdLine\<close> builds them.\<close>

definition gauge_load :: "rat \<Rightarrow> bool \<Rightarrow> rat metric" where
  "gauge_load v add =
     \<lparr>name = ''load'', field = ''value'', bucket = ''load'', hash = ''metric_type=gaugeload'',
      intvalue = 0, floatvalue = v, strvalue = [], mtype = ''g'', additive = add,
      samplerate = 0, tags = [(''metric_type'', ''gauge'')]\<rparr>"


definition counter_b :: "64 word \<Rightarrow> rat metric" where
  "counter_b v =
     \<lparr>name = ''b'', field = ''value'', bucket = ''b'', hash = ''metric_type=counterb'',
      intvalue = v, floatvalue = 0, strvalue = [], mtype = ''c'', additive = False,
      samplerate = 0, tags = [(''metric_type'', ''counter'')]\<rparr>"


text \<open>The gauge rule in the words of the specification: an additive sample adds its value to the
  current one, any other sample replaces it.\<close>

definition spec_gauge :: "('f, 'rs) externals \<Rightarrow> 'f \<Rightarrow> 'f metric \<Rightarrow> 'f" where
  "spec_gauge X cur m = (if additive m then fadd X cur (floatvalue m) else floatvalue m)"

section \<open>The queue-full branches\<close>

text \<open>
  C10.  With \<^verbatim>\<open>AllowedPendingMessages = 0\<close> and no line dropped so far, the first line that the
  TCP handler drops is logged (the test \<^verbatim>\<open>s.drops == 1\<close> comes first), and the second one takes
  the remainder of the drop counter by zero, which panics: the handler has no test for zero.
  The branch of the UDP listener tests \<^verbatim>\<open>AllowedPendingMessages == 0\<close> before the remainder, so
  it logs both drops and goes on.
\<close>

theorem handler_modulo_zero_divisor:
  "AllowedPendingMessages s = 0 \<Longrightarrow> drops s = 0 \<Longrightarrow>
     handler_default s = Return (Log Errorf queueFull [I 1] (s\<lparr>drops := 1\<rparr>)) \<and>
     handler_default (Log Errorf queueFull [I 1] (s\<lparr>drops := 1\<rparr>))
       = Panic ''runtime error: integer divide by zero'' \<and>
     udpListen_default s = Return (Log Errorf queueFull [I 1] (s\<lparr>drops := 1\<rparr>)) \<and>
     udpListen_default (Log Errorf queueFull [I 1] (s\<lparr>drops := 1\<rparr>))
       = Return (Log Errorf queueFull [I 2] (Log Errorf queueFull [I 1] (s\<lparr>drops := 2\<rparr>)))"
  by (simp add: handler_default_def udpListen_default_def Log_def Let_def)

theorem handler_modulo_zero_divisor_witness:
  "AllowedPendingMessages ((started 0 :: (rat, rat list) Statsd)\<lparr>AllowedPendingMessages := 0\<rparr>) = 0 \<and>
   drops ((started 0 :: (rat, rat list) Statsd)\<lparr>AllowedPendingMessages := 0\<rparr>) = 0 \<and>
   handler_default (Log Errorf queueFull [I 1]
       ((started 0 :: (rat, rat list) Statsd)\<lparr>AllowedPendingMessages := 0, drops := 1\<rparr>))
     = Panic ''runtime error: integer divide by zero''"
  using handler_modulo_zero_divisor
          [of "(started 0 :: (rat, rat list) Statsd)\<lparr>AllowedPendingMessages := 0\<rparr>"]
  by (simp add: started_def)

section \<open>The cache key\<close>

text \<open>
  C9.  The cache key is not injective.  The tag maps \<open>{a: b, c: d}\<close> and \<open>{a: bc=d}\<close> differ, yet
  with any name both give the key \<open>a=bc=d\<close> followed by the name, since the sorted pairs are
  joined with no separator.  Both maps come from real lines: the worker puts the counter lines
  \<^verbatim>\<open>n,a=b,c=d:1|c\<close> and \<^verbatim>\<open>n,a=bc=d:1|c\<close> into one cache entry, which counts 2 and keeps the tags of
  the first line.
\<close>

theorem hash_collision:
  "map_of [(''a'', ''b''), (''c'', ''d'')] \<noteq> map_of [(''a'', ''bc=d'')] \<and>
   make_hash [(''a'', ''b''), (''c'', ''d'')] nm = make_hash [(''a'', ''bc=d'')] nm \<and>
   make_hash [(''a'', ''b''), (''c'', ''d'')] nm = ''a=bc=d'' @ nm \<and>
   parser_lines exact (clock2 0) (started 0) 0 [] 0 [''n,a=b,c=d:1|c'', ''n,a=bc=d:1|c'']
     = Return (None, (started 0)\<lparr>
         counters := [(''a=bc=dmetric_type=countern'',
                       \<lparr>cname = ''n'', cfields = [(''value'', Int64 2)],
                        ctags = [(''a'', ''b''), (''c'', ''d''), (''metric_type'', ''counter'')],
                        expiresAt = 0\<rparr>)],
         graphiteParser := Some (''_'', [])\<rparr>)"
proof -
  have differ: "map_of [(''a'', ''b''), (''c'', ''d'')] \<noteq> map_of [(''a'', ''bc=d'')]"
  proof
    assume "map_of [(''a'', ''b''), (''c'', ''d'')] = map_of [(''a'', ''bc=d'')]"
    then have "map_of [(''a'', ''b''), (''c'', ''d'')] ''c'' = map_of [(''a'', ''bc=d'')] ''c''"
      by (rule arg_cong [where f = "\<lambda>m. m ''c''"])
    then show False by simp
  qed
  have two: "make_hash [(''a'', ''b''), (''c'', ''d'')] nm = ''a=bc=d'' @ nm"
    by (simp add: make_hash_def)
  have one: "make_hash [(''a'', ''bc=d'')] nm = ''a=bc=d'' @ nm"
    by (simp add: make_hash_def)
  have run: "parser_lines exact (clock2 0) (started 0) 0 [] 0 [''n,a=b,c=d:1|c'', ''n,a=bc=d:1|c'']
     = Return (None, (started 0)\<lparr>
         counters := [(''a=bc=dmetric_type=countern'',
                       \<lparr>cname = ''n'', cfields = [(''value'', Int64 2)],
                        ctags = [(''a'', ''b''), (''c'', ''d''), (''metric_type'', ''counter'')],
                        expiresAt = 0\<rparr>)],
         graphiteParser := Some (''_'', [])\<rparr>)"
    by code_simp
  from differ two one run show ?thesis by simp
qed

section \<open>Counters as floats\<close>

text \<open>
  C2.  With \<^verbatim>\<open>FloatCounters\<close> on and \<^verbatim>\<open>DeleteCounters\<close> off, \<^verbatim>\<open>Gather\<close> overwrites the fields of
  the cached counter by floats, in the map of the cache itself.  The next counter sample for
  the same entry reaches the assertion \<^verbatim>\<open>cached.fields[m.field].(int64)\<close> of \<^verbatim>\<open>aggregate\<close> with a
  float in the field, and panics: line \<^verbatim>\<open>a:1|c\<close>, a flush, line \<^verbatim>\<open>a:1|c\<close> again.
\<close>

theorem float_counters_aggregate_after_gather:
  "andThen (parseStatsdLine exact (clock 0)
              ((started 0)\<lparr>FloatCounters := True, DeleteCounters := False\<rparr>) ''a:1|c'')
     (\<lambda>(e, s). andThen (Gather exact 1 1 s)
        (\<lambda>(out, s). parseStatsdLine exact (clock 0) s ''a:1|c''))
   = Panic ''interface conversion: interface {} is float64, not int64''"
  by code_simp

section \<open>Facts about the caches, the key and the parser\<close>

lemma cache_field_update:
  "cache_field (AList.update h (c\<lparr>cfields := AList.update f v fs, expiresAt := e\<rparr>) cache) h f = Some v"
  by (simp add: cache_field_def update_conv')

lemma expiresAt_update:
  "map_option expiresAt (map_of (AList.update h (c\<lparr>cfields := fs, expiresAt := e\<rparr>) cache) h) = Some e"
  by (simp add: update_conv')










lemma aggregate_gauge_step:
  assumes "mtype m = ''g''"
    and "cache_field (gauges s) (hash m) (field m) = None \<and> c = f0 X
         \<or> cache_field (gauges s) (hash m) (field m) = Some (Float64 c)"
  shows "\<exists>s'. aggregate X now s m = Return s'
           \<and> cache_field (gauges s') (hash m) (field m) = Some (Float64 (spec_gauge X c m))"
  using assms
  by (cases "map_of (gauges s) (hash m)"; cases "additive m")
     (auto simp: aggregate_def Let_def cache_field_def update_conv' spec_gauge_def newCached_def)

lemma gauge_sequence_aux:
  assumes "\<forall>m \<in> set ms. mtype m = ''g'' \<and> hash m = h \<and> field m = f"
    and "cache_field (gauges s) h f = None \<and> c = f0 X \<or> cache_field (gauges s) h f = Some (Float64 c)"
    and "ms \<noteq> []"
  shows "\<exists>s'. aggregate_all X now i s ms = Return s'
           \<and> cache_field (gauges s') h f = Some (Float64 (foldl (spec_gauge X) c ms))"
  using assms
proof (induction ms arbitrary: s c i)
  case Nil
  then show ?case by simp
next
  case (Cons m ms)
  from Cons.prems have m: "mtype m = ''g''" "hash m = h" "field m = f" by auto
  from aggregate_gauge_step [of m s c X "now i"] m Cons.prems(2)
  obtain s1 where s1: "aggregate X (now i) s m = Return s1"
    "cache_field (gauges s1) h f = Some (Float64 (spec_gauge X c m))"
    by auto
  show ?case
  proof (cases "ms = []")
    case True
    with s1 show ?thesis by (simp add: andThen_def)
  next
    case False
    from Cons.prems(1) have "\<forall>m \<in> set ms. mtype m = ''g'' \<and> hash m = h \<and> field m = f" by simp
    from Cons.IH [OF this _ False, of s1 "spec_gauge X c m" "Suc i"] s1(2)
    obtain s2 where "aggregate_all X now (Suc i) s1 ms = Return s2"
      "cache_field (gauges s2) h f = Some (Float64 (foldl (spec_gauge X) (spec_gauge X c m) ms))"
      by auto
    with s1 show ?thesis by (simp add: andThen_def)
  qed
qed







lemma strings_Join_empty: "strings_Join xs [] = concat xs"
  by (induction xs "[] :: string" rule: strings_Join.induct) simp_all

lemma sort_mset_eq:
  fixes xs ys :: "string list"
  assumes "mset xs = mset ys"
  shows "sort xs = sort ys"
  by (rule properties_for_sort) (simp_all add: assms)

lemma make_hash_order:
  assumes "distinct (map fst t1)" "distinct (map fst t2)" "map_of t1 = map_of t2"
  shows "make_hash t1 nm = make_hash t2 nm"
proof -
  from assms have "set t1 = set t2" by (simp add: map_of_inject_set)
  moreover from assms(1,2) have "distinct t1" "distinct t2" by (simp_all add: distinct_map)
  ultimately have "mset t1 = mset t2" by (simp add: set_eq_iff_mset_eq_distinct)
  then have "mset (map (\<lambda>(k, v). k @ ''='' @ v) t1) = mset (map (\<lambda>(k, v). k @ ''='' @ v) t2)"
    by simp
  then have "sort (map (\<lambda>(k, v). k @ ''='' @ v) t1) = sort (map (\<lambda>(k, v). k @ ''='' @ v) t2)"
    by (rule sort_mset_eq)
  then show ?thesis by (simp add: make_hash_def)
qed

lemma make_hash_concat:
  "make_hash tgs nm = concat (sort (map (\<lambda>(k, v). k @ ''='' @ v) tgs)) @ nm"
  by (simp add: make_hash_def strings_Join_empty)

lemma strings_Split_nonempty [simp]: "strings_Split xs sep \<noteq> []"
  by (induction xs) (auto split: list.splits)






lemma nameMetric_sel:
  "mtype (fst (nameMetric X s lt m)) = mtype m"
  "intvalue (fst (nameMetric X s lt m)) = intvalue m"
  "floatvalue (fst (nameMetric X s lt m)) = floatvalue m"
  "strvalue (fst (nameMetric X s lt m)) = strvalue m"
  "additive (fst (nameMetric X s lt m)) = additive m"
  "samplerate (fst (nameMetric X s lt m)) = samplerate m"
  by (simp_all add: nameMetric_def Let_def split_def)










lemma parseSampleRate_logged:
  "parseSampleRate X s line ps = (r, s1) \<Longrightarrow> \<exists>l. s1 = s\<lparr>logged := l\<rparr>"
  by (auto simp: parseSampleRate_def Log_def Let_def split: if_splits option.splits
      intro: exI [of _ "logged s"])



lemma logged_caches: "caches (s\<lparr>logged := l\<rparr>) = caches s"
  by (simp add: caches_def)





lemma parseStatsdLine_unfold:
  assumes "stripDataDog X s line0 = (line, lt)"
  shows "parseStatsdLine X now s line0
           = (if length (strings_Split line (CHR '':'')) < 2
              then Return (Some errParsing,
                     Log Errorf (''Splitting '' @ [CHR 0x27] @ '':'' @ [CHR 0x27]
                                  @ '', unable to parse metric: %s'') [S line] s)
              else parseBits X now s line lt (strings_Split line (CHR '':'') ! 0) 0
                     (tl (strings_Split line (CHR '':''))))"
    and "parseValues X now s line0 k
           = parseBits X now s line lt (strings_Split line (CHR '':'') ! 0) 0
               (take k (tl (strings_Split line (CHR '':''))))"
    and "lineValues X s line0 = tl (strings_Split line (CHR '':''))"
  using assms by (simp_all add: parseStatsdLine_def parseValues_def lineValues_def Let_def)

section \<open>The sanitize method does not change what is aggregated\<close>

lemma aggregate_sim:
  "aggregate X now (s\<lparr>logged := l, SanitizeNamesMethod := meth\<rparr>) m
     = (case aggregate X now s m of
          Panic p \<Rightarrow> Panic p
        | Return s' \<Rightarrow> Return (s'\<lparr>logged := l, SanitizeNamesMethod := meth\<rparr>))"
proof (cases "mtype m = ''d''")
  case True
  then show ?thesis by (simp add: aggregate_def)
next
  case nd: False
  show ?thesis
  proof (cases "mtype m = ''ms'' \<or> mtype m = ''h''")
    case True
    with nd show ?thesis by (simp add: aggregate_def Let_def split: option.splits)
  next
    case nt: False
    show ?thesis
    proof (cases "mtype m = ''c''")
      case True
      then show ?thesis by (simp add: aggregate_def Let_def split: option.splits val.splits)
    next
      case nc: False
      show ?thesis
      proof (cases "mtype m = ''g''")
        case True
        then show ?thesis by (simp add: aggregate_def Let_def split: option.splits val.splits)
      next
        case ng: False
        show ?thesis
        proof (cases "mtype m = ''s''")
          case True
          then show ?thesis by (simp add: aggregate_def Let_def)
        next
          case False
          with nd nt nc ng show ?thesis by (simp add: aggregate_def)
        qed
      qed
    qed
  qed
qed

lemma aggregate_method:
  assumes "aggregate X now s m = Return s'"
  shows "SanitizeNamesMethod s' = SanitizeNamesMethod s"
proof (cases "mtype m = ''d''")
  case True
  with assms show ?thesis by (auto simp: aggregate_def split: if_splits)
next
  case nd: False
  show ?thesis
  proof (cases "mtype m = ''ms'' \<or> mtype m = ''h''")
    case True
    with nd assms show ?thesis by (auto simp: aggregate_def Let_def)
  next
    case nt: False
    show ?thesis
    proof (cases "mtype m = ''c''")
      case True
      with assms show ?thesis
        by (auto simp: aggregate_def Let_def split: option.splits val.splits)
    next
      case nc: False
      show ?thesis
      proof (cases "mtype m = ''g''")
        case True
        with assms show ?thesis
          by (auto simp: aggregate_def Let_def split: option.splits val.splits if_splits)
      next
        case ng: False
        show ?thesis
        proof (cases "mtype m = ''s''")
          case True
          with assms show ?thesis by (auto simp: aggregate_def Let_def)
        next
          case False
          with nd nt nc ng assms show ?thesis by (simp add: aggregate_def)
        qed
      qed
    qed
  qed
qed

lemma parseName_sim:
  assumes "SanitizeNamesMethod s \<noteq> []" "SanitizeNamesMethod s \<noteq> ''upstream''"
  shows "parseName X (s\<lparr>logged := l, SanitizeNamesMethod := []\<rparr>) b
           = (fst (parseName X s b),
              (snd (parseName X s b))\<lparr>logged := l, SanitizeNamesMethod := []\<rparr>)"
  using assms
  by (simp add: parseName_def sanitizeName_def Log_def Let_def split_def
      cong: option.case_cong if_cong)

lemma parseName_logged:
  assumes "SanitizeNamesMethod s \<noteq> []" "SanitizeNamesMethod s \<noteq> ''upstream''"
  shows "logged (snd (parseName X s b))
           = logged s @ [(Errorf, ''Unknown sanitizae name method: %s'', [S (SanitizeNamesMethod s)])]"
  using assms
  by (simp add: parseName_def sanitizeName_def Log_def Let_def split_def
      cong: option.case_cong if_cong)

lemma parseName_method:
  "SanitizeNamesMethod (snd (parseName X s b)) = SanitizeNamesMethod s"
  by (simp add: parseName_def sanitizeName_def Log_def Let_def split_def
      cong: option.case_cong if_cong)

lemma parseSampleRate_sim:
  "parseSampleRate X (s\<lparr>logged := l, SanitizeNamesMethod := meth\<rparr>) line ps
     = (fst (parseSampleRate X s line ps),
        (snd (parseSampleRate X s line ps))
          \<lparr>logged := l @ drop (length (logged s)) (logged (snd (parseSampleRate X s line ps))),
           SanitizeNamesMethod := meth\<rparr>)"
  by (simp add: parseSampleRate_def Log_def Let_def split: option.splits)

lemma parseSampleRate_method:
  "SanitizeNamesMethod (snd (parseSampleRate X s line ps)) = SanitizeNamesMethod s"
  by (simp add: parseSampleRate_def Log_def Let_def split: option.splits)

lemma parseValue_sim:
  "parseValue X (s\<lparr>logged := l, SanitizeNamesMethod := meth\<rparr>) line raw m
     = (fst (parseValue X s line raw m),
        (snd (parseValue X s line raw m))
          \<lparr>logged := l @ drop (length (logged s)) (logged (snd (parseValue X s line raw m))),
           SanitizeNamesMethod := meth\<rparr>)"
  by (simp add: parseValue_def Log_def Let_def split: option.splits)

lemma parseValue_method:
  "SanitizeNamesMethod (snd (parseValue X s line raw m)) = SanitizeNamesMethod s"
  by (simp add: parseValue_def Log_def Let_def split: option.splits)

lemma nameMetric_sim:
  assumes "SanitizeNamesMethod s \<noteq> []" "SanitizeNamesMethod s \<noteq> ''upstream''"
  shows "nameMetric X (s\<lparr>logged := l, SanitizeNamesMethod := []\<rparr>) lt m
           = (fst (nameMetric X s lt m),
              (snd (nameMetric X s lt m))\<lparr>logged := l, SanitizeNamesMethod := []\<rparr>)"
  by (simp add: nameMetric_def Let_def split_def parseName_sim [OF assms] typeTags_def)

lemma nameMetric_method:
  "SanitizeNamesMethod (snd (nameMetric X s lt m)) = SanitizeNamesMethod s"
  by (simp add: nameMetric_def Let_def split_def parseName_method)

lemma parseBit_sim:
  assumes u: "SanitizeNamesMethod s \<noteq> []" "SanitizeNamesMethod s \<noteq> ''upstream''"
  shows "fst (parseBit X (s\<lparr>logged := l, SanitizeNamesMethod := []\<rparr>) line lt b bt)
           = fst (parseBit X s line lt b bt)
         \<and> alike (snd (parseBit X s line lt b bt))
                 (snd (parseBit X (s\<lparr>logged := l, SanitizeNamesMethod := []\<rparr>) line lt b bt))
         \<and> SanitizeNamesMethod (snd (parseBit X s line lt b bt)) = SanitizeNamesMethod s"
proof -
  let ?ps = "strings_Split bt (CHR ''|'')"
  have nm: "nameMetric X (z\<lparr>logged := k, SanitizeNamesMethod := []\<rparr>) lt m
           = (fst (nameMetric X z lt m),
              (snd (nameMetric X z lt m))\<lparr>logged := k, SanitizeNamesMethod := []\<rparr>)"
    if "SanitizeNamesMethod z = SanitizeNamesMethod s" for z k m
    using that u by (intro nameMetric_sim) simp_all
  note simps = parseBit_def Let_def split_def parseSampleRate_sim parseSampleRate_method
    parseValue_sim parseValue_method nm nameMetric_method alike_def
  show ?thesis
  proof (cases "length ?ps < 2")
    case True
    then show ?thesis by (simp add: parseBit_def Log_def alike_def)
  next
    case long: False
    show ?thesis
    proof (cases "?ps ! 1 \<notin> set [''g'', ''c'', ''s'', ''ms'', ''h'', ''d'']")
      case True
      with long show ?thesis
        by (simp add: parseBit_def Let_def parseSampleRate_sim parseSampleRate_method Log_def
            alike_def split_def)
    next
      case known: False
      show ?thesis
      proof (cases "strings_HasPrefix (?ps ! 0) ''-'' \<or> strings_HasPrefix (?ps ! 0) ''+''")
        case False
        with long known show ?thesis
          by (simp add: simps split: option.splits)
      next
        case True
        show ?thesis
        proof (cases "?ps ! 1 = ''g''")
          case g: True
          with long True show ?thesis
            by (simp add: simps split: option.splits)
        next
          case ng: False
          show ?thesis
          proof (cases "?ps ! 1 = ''c''")
            case c: True
            with long True show ?thesis
              by (simp add: simps split: option.splits)
          next
            case nc: False
            with long known True ng show ?thesis
              by (simp add: parseBit_def Let_def parseSampleRate_sim parseSampleRate_method
                  Log_def alike_def split_def)
          qed
        qed
      qed
    qed
  qed
qed

lemma parseBits_sim:
  assumes "SanitizeNamesMethod s \<noteq> []" "SanitizeNamesMethod s \<noteq> ''upstream''"
  shows "case parseBits X now s line lt b i bits of
           Panic p \<Rightarrow>
             parseBits X now (s\<lparr>logged := l, SanitizeNamesMethod := []\<rparr>) line lt b i bits = Panic p
         | Return (e, s') \<Rightarrow>
             (\<exists>l'. parseBits X now (s\<lparr>logged := l, SanitizeNamesMethod := []\<rparr>) line lt b i bits
                     = Return (e, s'\<lparr>logged := l', SanitizeNamesMethod := []\<rparr>))"
  using assms
proof (induction bits arbitrary: s l i)
  case Nil
  show ?case by (simp, rule exI [of _ l], rule refl)
next
  case (Cons bt bits)
  let ?t = "s\<lparr>logged := l, SanitizeNamesMethod := []\<rparr>"
  obtain r s1 where ps: "parseBit X s line lt b bt = (r, s1)"
    by (cases "parseBit X s line lt b bt")
  obtain r' t1 where pt: "parseBit X ?t line lt b bt = (r', t1)"
    by (cases "parseBit X ?t line lt b bt")
  from parseBit_sim [OF Cons.prems, where X = X and l = l and line = line and lt = lt and b = b
        and bt = bt] ps pt
  have r: "r' = r" and al: "alike s1 t1" and m1: "SanitizeNamesMethod s1 = SanitizeNamesMethod s"
    by simp_all
  from al have t1: "t1 = s1\<lparr>logged := logged t1, SanitizeNamesMethod := []\<rparr>"
    by (simp add: alike_def)
  show ?case
  proof (cases r)
    case None
    with ps pt r have "parseBits X now s line lt b i (bt # bits) = Return (Some errParsing, s1)"
      "parseBits X now ?t line lt b i (bt # bits) = Return (Some errParsing, t1)"
      by simp_all
    with t1 show ?thesis by (auto intro: exI [of _ "logged t1"])
  next
    case (Some m)
    have at: "aggregate X (now i) t1 m
                = (case aggregate X (now i) s1 m of
                     Panic p \<Rightarrow> Panic p
                   | Return s2 \<Rightarrow> Return (s2\<lparr>logged := logged t1, SanitizeNamesMethod := []\<rparr>))"
      by (subst t1) (rule aggregate_sim)
    show ?thesis
    proof (cases "aggregate X (now i) s1 m")
      case (Panic p)
      with ps pt r Some at show ?thesis by simp
    next
      case (Return s2)
      with m1 Cons.prems have u2: "SanitizeNamesMethod s2 \<noteq> []" "SanitizeNamesMethod s2 \<noteq> ''upstream''"
        by (auto dest: aggregate_method)
      from ps Some Return
      have a: "parseBits X now s line lt b i (bt # bits) = parseBits X now s2 line lt b (Suc i) bits"
        by simp
      from pt r Some Return at
      have b: "parseBits X now ?t line lt b i (bt # bits)
                 = parseBits X now (s2\<lparr>logged := logged t1, SanitizeNamesMethod := []\<rparr>) line lt b
                     (Suc i) bits"
        by simp
      from Cons.IH [OF u2, where i = "Suc i" and l = "logged t1"] show ?thesis
        unfolding a b .
    qed
  qed
qed

lemma stripDataDog_sim:
  "stripDataDog X (s\<lparr>logged := l, SanitizeNamesMethod := meth\<rparr>) line0 = stripDataDog X s line0"
  by (simp add: stripDataDog_def cong: if_cong)

lemma parseStatsdLine_sim:
  assumes "SanitizeNamesMethod s \<noteq> []" "SanitizeNamesMethod s \<noteq> ''upstream''"
  shows "same_outcome (parseStatsdLine X now s line0)
           (parseStatsdLine X now (s\<lparr>SanitizeNamesMethod := []\<rparr>) line0)"
proof -
  let ?t = "s\<lparr>logged := logged s, SanitizeNamesMethod := []\<rparr>"
  have t: "s\<lparr>SanitizeNamesMethod := []\<rparr> = ?t" by simp
  obtain line lt where sd: "stripDataDog X s line0 = (line, lt)"
    by (cases "stripDataDog X s line0")
  then have sdt: "stripDataDog X ?t line0 = (line, lt)"
    by (simp only: stripDataDog_sim)
  note us = parseStatsdLine_unfold(1) [OF sd] and ut = parseStatsdLine_unfold(1) [OF sdt]
  show ?thesis
  proof (cases "length (strings_Split line (CHR '':'')) < 2")
    case True
    then show ?thesis
      unfolding t us ut by (simp add: same_outcome_def Log_def caches_def)
  next
    case False
    from parseBits_sim [OF assms, where X = X and now = now and line = line and lt = lt
        and b = "strings_Split line (CHR '':'') ! 0" and i = 0
        and bits = "tl (strings_Split line (CHR '':''))" and l = "logged s"]
    have "same_outcome
            (parseBits X now s line lt (strings_Split line (CHR '':'') ! 0) 0
               (tl (strings_Split line (CHR '':''))))
            (parseBits X now ?t line lt (strings_Split line (CHR '':'') ! 0) 0
               (tl (strings_Split line (CHR '':''))))"
      by (auto simp: same_outcome_def caches_def split: outcome.splits)
    with False show ?thesis
      unfolding t us ut by simp
  qed
qed

lemma parseBit_unknown_type:
  assumes "2 \<le> length (strings_Split bt (CHR ''|''))"
    and "strings_Split bt (CHR ''|'') ! 1 \<notin> set [''g'', ''c'', ''s'', ''ms'', ''h'', ''d'']"
  shows "parseBit X s line lt b bt
           = (None, Log Errorf ''Metric type %q unsupported'' [S (strings_Split bt (CHR ''|'') ! 1)]
                      (snd (parseSampleRate X s line (strings_Split bt (CHR ''|'')))))"
  using assms by (simp add: parseBit_def Let_def split_def)

section \<open>Counter sample rate\<close>




section \<open>Parse errors\<close>




section \<open>Timing sample rate\<close>




section \<open>Tag order\<close>

text \<open>
  C5.  Two tag lists with distinct keys that are the same map give the same key with any name,
  whatever their order; the key is the concatenation of the sorted \<open>k=v\<close> strings followed by the
  name, and it is the key stored in the metric that \<^verbatim>\<open>aggregate\<close> looks up.
\<close>

theorem hash_tag_order:
  assumes "distinct (map fst t1)" and "distinct (map fst t2)" and "map_of t1 = map_of t2"
  shows "make_hash t1 nm = make_hash t2 nm
         \<and> make_hash t1 nm = concat (sort (map (\<lambda>(k, v). k @ ''='' @ v) t1)) @ nm
         \<and> hash (fst (nameMetric X s lt m))
             = make_hash (tags (fst (nameMetric X s lt m))) (name (fst (nameMetric X s lt m)))"
proof -
  have "hash (fst (nameMetric X s lt m))
          = make_hash (tags (fst (nameMetric X s lt m))) (name (fst (nameMetric X s lt m)))"
    by (simp add: nameMetric_def Let_def split_def)
  with make_hash_order [OF assms] make_hash_concat show ?thesis by blast
qed

theorem hash_tag_order_witness:
  "make_hash [(''region'', ''us''), (''env'', ''prod''), (''metric_type'', ''counter'')] ''page.views''
     = make_hash [(''env'', ''prod''), (''region'', ''us''), (''metric_type'', ''counter'')] ''page.views''
   \<and> make_hash [(''region'', ''us''), (''env'', ''prod''), (''metric_type'', ''counter'')] ''page.views''
       = ''env=prodmetric_type=counterregion=uspage.views''
   \<and> map_option counters
        (returned_state
           (parser_lines exact (clock2 0) (started 0) 0 [] 0
              [''page.views,region=us,env=prod:1|c'', ''page.views,env=prod,region=us:1|c'']))
       = Some [(''env=prodmetric_type=counterregion=uspage.views'',
                \<lparr>cname = ''page.views'', cfields = [(''value'', Int64 2)],
                 ctags = [(''region'', ''us''), (''env'', ''prod''), (''metric_type'', ''counter'')],
                 expiresAt = 0\<rparr>)]"
proof -
  have d: "distinct (map fst [(''region'', ''us''), (''env'', ''prod''), (''metric_type'', ''counter'')])"
    "distinct (map fst [(''env'', ''prod''), (''region'', ''us''), (''metric_type'', ''counter'')])"
    by simp_all
  have m: "map_of [(''region'', ''us''), (''env'', ''prod''), (''metric_type'', ''counter'')]
           = map_of [(''env'', ''prod''), (''region'', ''us''), (''metric_type'', ''counter'')]"
    by (rule ext) simp
  have v: "make_hash [(''region'', ''us''), (''env'', ''prod''), (''metric_type'', ''counter'')] ''page.views''
       = ''env=prodmetric_type=counterregion=uspage.views''"
    by code_simp
  have r: "map_option counters
        (returned_state
           (parser_lines exact (clock2 0) (started 0) 0 [] 0
              [''page.views,region=us,env=prod:1|c'', ''page.views,env=prod,region=us:1|c'']))
       = Some [(''env=prodmetric_type=counterregion=uspage.views'',
                \<lparr>cname = ''page.views'', cfields = [(''value'', Int64 2)],
                 ctags = [(''region'', ''us''), (''env'', ''prod''), (''metric_type'', ''counter'')],
                 expiresAt = 0\<rparr>)]"
    by code_simp
  from hash_tag_order [OF d m, where nm = "''page.views''" and X = exact and s = "started 0"
        and lt = "[]" and m = "counter_b 1"] v r
  show ?thesis by simp
qed

section \<open>Gauges\<close>

text \<open>
  C6.  A nonempty sequence of gauge samples for one field of one cache entry, applied to a cache
  where the field is absent (then the start value \<open>c\<close> is \<open>0.0\<close>) or holds the float \<open>c\<close>, always
  returns, and leaves in the field the value that the rule of the specification computes from
  \<open>c\<close>: an additive sample adds its value, any other sample replaces the value.  The worker
  turns \<^verbatim>\<open>load:42|g\<close>, \<^verbatim>\<open>load:+5|g\<close>, \<^verbatim>\<open>load:-10|g\<close> into the gauge \<open>load\<close> with \<open>value = 37\<close>.
\<close>

theorem gauge_sequence:
  assumes "\<forall>m \<in> set ms. mtype m = ''g'' \<and> hash m = h \<and> field m = f"
    and "cache_field (gauges s) h f = None \<and> c = f0 X
         \<or> cache_field (gauges s) h f = Some (Float64 c)"
    and "ms \<noteq> []"
  shows "(\<exists>s'. aggregate_all X now i s ms = Return s'
            \<and> cache_field (gauges s') h f = Some (Float64 (foldl (spec_gauge X) c ms)))
         \<and> map_option gauges
              (returned_state
                 (parser_input exact (clock2 0) (started 0)
                    (''load:42|g'' @ [CHR 0x0A] @ ''load:+5|g'' @ [CHR 0x0A] @ ''load:-10|g'',
                     0, [])))
             = Some [(''metric_type=gaugeload'',
                      \<lparr>cname = ''load'', cfields = [(''value'', Float64 37)],
                       ctags = [(''metric_type'', ''gauge'')], expiresAt = 0\<rparr>)]"
proof -
  have "map_option gauges
              (returned_state
                 (parser_input exact (clock2 0) (started 0)
                    (''load:42|g'' @ [CHR 0x0A] @ ''load:+5|g'' @ [CHR 0x0A] @ ''load:-10|g'',
                     0, [])))
             = Some [(''metric_type=gaugeload'',
                      \<lparr>cname = ''load'', cfields = [(''value'', Float64 37)],
                       ctags = [(''metric_type'', ''gauge'')], expiresAt = 0\<rparr>)]"
    by code_simp
  with gauge_sequence_aux [OF assms] show ?thesis by blast
qed

theorem gauge_sequence_witness:
  "(\<exists>s'. aggregate_all exact (clock 0) 0 (started 0)
            [gauge_load 42 False, gauge_load 5 True, gauge_load (- 10) True] = Return s'
          \<and> cache_field (gauges s') ''metric_type=gaugeload'' ''value'' = Some (Float64 37))
   \<and> cache_field (gauges (started 0 :: (rat, rat list) Statsd)) ''metric_type=gaugeload'' ''value''
       = None"
proof -
  have h: "\<forall>m \<in> set [gauge_load 42 False, gauge_load 5 True, gauge_load (- 10) True].
             mtype m = ''g'' \<and> hash m = ''metric_type=gaugeload'' \<and> field m = ''value''"
    by (simp add: gauge_load_def)
  have e: "cache_field (gauges (started 0 :: (rat, rat list) Statsd))
             ''metric_type=gaugeload'' ''value'' = None"
    by (simp add: cache_field_def started_def)
  have z: "f0 exact = 0" by (simp add: exact_def)
  have f: "foldl (spec_gauge exact) 0 [gauge_load 42 False, gauge_load 5 True, gauge_load (- 10) True]
             = 37"
    by (simp add: spec_gauge_def gauge_load_def exact_def)
  from gauge_sequence [where X = exact and s = "started 0" and c = 0 and now = "clock 0" and i = 0,
        OF h] e z f
  show ?thesis by simp
qed

section \<open>Time to live\<close>



section \<open>Unknown sanitize method, unknown metric type\<close>

text \<open>
  C8 (as the code has it).  Under a sanitize method that is neither empty nor \<open>upstream\<close>, a
  line is processed as under the empty method: the two runs end in the same panic, or with the
  same error value and the same caches; \<^verbatim>\<open>parseName\<close> returns the same name, field and tags and
  logs the error.  A value with at least two segments whose type is unknown is logged and ends
  the line with \<^verbatim>\<open>errParsing\<close>: this value and the later ones are not aggregated, and the value
  itself leaves the caches as they are.
\<close>

theorem unknown_method_and_type:
  "(SanitizeNamesMethod s \<noteq> [] \<and> SanitizeNamesMethod s \<noteq> ''upstream'' \<longrightarrow>
      same_outcome (parseStatsdLine X now s lin)
        (parseStatsdLine X now (s\<lparr>SanitizeNamesMethod := []\<rparr>) lin)
      \<and> fst (parseName X s b) = fst (parseName X (s\<lparr>SanitizeNamesMethod := []\<rparr>) b)
      \<and> logged (snd (parseName X s b))
          = logged s @ [(Errorf, ''Unknown sanitizae name method: %s'',
                         [S (SanitizeNamesMethod s)])])
   \<and> (2 \<le> length (strings_Split bt (CHR ''|''))
       \<and> strings_Split bt (CHR ''|'') ! 1 \<notin> set [''g'', ''c'', ''s'', ''ms'', ''h'', ''d'']
      \<longrightarrow> parseBits X now s line lt b i (bt # bits)
            = Return (Some errParsing,
                      Log Errorf ''Metric type %q unsupported'' [S (strings_Split bt (CHR ''|'') ! 1)]
                        (snd (parseSampleRate X s line (strings_Split bt (CHR ''|'')))))
          \<and> caches (Log Errorf ''Metric type %q unsupported'' [S (strings_Split bt (CHR ''|'') ! 1)]
                      (snd (parseSampleRate X s line (strings_Split bt (CHR ''|'')))))
              = caches s)"
proof -
  have sanitize: "same_outcome (parseStatsdLine X now s lin)
        (parseStatsdLine X now (s\<lparr>SanitizeNamesMethod := []\<rparr>) lin)
      \<and> fst (parseName X s b) = fst (parseName X (s\<lparr>SanitizeNamesMethod := []\<rparr>) b)
      \<and> logged (snd (parseName X s b))
          = logged s @ [(Errorf, ''Unknown sanitizae name method: %s'',
                         [S (SanitizeNamesMethod s)])]"
    if u: "SanitizeNamesMethod s \<noteq> []" "SanitizeNamesMethod s \<noteq> ''upstream''"
  proof -
    have "s\<lparr>SanitizeNamesMethod := []\<rparr> = s\<lparr>logged := logged s, SanitizeNamesMethod := []\<rparr>"
      by simp
    then have "fst (parseName X (s\<lparr>SanitizeNamesMethod := []\<rparr>) b) = fst (parseName X s b)"
      by (simp only: parseName_sim [OF u] fst_conv)
    with parseStatsdLine_sim [OF u] parseName_logged [OF u] show ?thesis by simp
  qed
  have unknown: "parseBits X now s line lt b i (bt # bits)
            = Return (Some errParsing,
                      Log Errorf ''Metric type %q unsupported'' [S (strings_Split bt (CHR ''|'') ! 1)]
                        (snd (parseSampleRate X s line (strings_Split bt (CHR ''|'')))))
          \<and> caches (Log Errorf ''Metric type %q unsupported'' [S (strings_Split bt (CHR ''|'') ! 1)]
                      (snd (parseSampleRate X s line (strings_Split bt (CHR ''|'')))))
              = caches s"
    if t: "2 \<le> length (strings_Split bt (CHR ''|''))"
      "strings_Split bt (CHR ''|'') ! 1 \<notin> set [''g'', ''c'', ''s'', ''ms'', ''h'', ''d'']"
  proof -
    obtain r s1 where rs: "parseSampleRate X s line (strings_Split bt (CHR ''|'')) = (r, s1)"
      by (cases "parseSampleRate X s line (strings_Split bt (CHR ''|''))")
    then obtain lg where "s1 = s\<lparr>logged := lg\<rparr>" by (auto dest: parseSampleRate_logged)
    then have "caches (Log Errorf ''Metric type %q unsupported''
                         [S (strings_Split bt (CHR ''|'') ! 1)] s1) = caches s"
      by (simp add: Log_def caches_def)
    with rs show ?thesis
      by (simp add: parseBit_unknown_type [OF t])
  qed
  from sanitize unknown show ?thesis by blast
qed

theorem unknown_method_and_type_witness:
  "same_outcome
     (parseStatsdLine exact (clock 0) ((started 0)\<lparr>SanitizeNamesMethod := ''bogus''\<rparr>) ''a:1|c'')
     (parseStatsdLine exact (clock 0) (started 0) ''a:1|c'')
   \<and> parseBits exact (clock 0) (started 0) ''a:1|x'' [] ''a'' 0 [''1|x'']
       = Return (Some errParsing,
                 (started 0)\<lparr>logged := [(Errorf, ''Metric type %q unsupported'', [S ''x''])]\<rparr>)"
proof -
  let ?s = "(started 0 :: (rat, rat list) Statsd)\<lparr>SanitizeNamesMethod := ''bogus''\<rparr>"
  have u: "SanitizeNamesMethod ?s \<noteq> [] \<and> SanitizeNamesMethod ?s \<noteq> ''upstream''"
    by simp
  have e: "?s\<lparr>SanitizeNamesMethod := []\<rparr> = started 0"
    by (simp add: started_def)
  have t: "2 \<le> length (strings_Split ''1|x'' (CHR ''|''))
           \<and> strings_Split ''1|x'' (CHR ''|'') ! 1 \<notin> set [''g'', ''c'', ''s'', ''ms'', ''h'', ''d'']"
    by simp
  have l: "Log Errorf ''Metric type %q unsupported'' [S (strings_Split ''1|x'' (CHR ''|'') ! 1)]
             (snd (parseSampleRate exact (started 0) ''a:1|x'' (strings_Split ''1|x'' (CHR ''|''))))
           = (started 0)\<lparr>logged := [(Errorf, ''Metric type %q unsupported'', [S ''x''])]\<rparr>"
    by code_simp
  from unknown_method_and_type [where X = exact and now = "clock 0" and s = ?s
      and lin = "''a:1|c''" and b = "''a''" and bt = "''1|x''" and line = "''a:1|x''" and lt = "[]"
      and i = 0 and bits = "[]"] u
  have "same_outcome (parseStatsdLine exact (clock 0) ?s ''a:1|c'')
     (parseStatsdLine exact (clock 0) (?s\<lparr>SanitizeNamesMethod := []\<rparr>) ''a:1|c'')"
    by blast
  then have one: "same_outcome (parseStatsdLine exact (clock 0) ?s ''a:1|c'')
     (parseStatsdLine exact (clock 0) (started 0) ''a:1|c'')"
    by (simp only: e)
  from unknown_method_and_type [where X = exact and now = "clock 0" and s = "started 0"
      and lin = "''a:1|c''" and b = "''a''" and bt = "''1|x''" and line = "''a:1|x''" and lt = "[]"
      and i = 0 and bits = "[]"] t
  have "parseBits exact (clock 0) (started 0) ''a:1|x'' [] ''a'' 0 [''1|x'']
       = Return (Some errParsing,
           Log Errorf ''Metric type %q unsupported'' [S (strings_Split ''1|x'' (CHR ''|'') ! 1)]
             (snd (parseSampleRate exact (started 0) ''a:1|x'' (strings_Split ''1|x'' (CHR ''|'')))))"
    by blast
  then have two: "parseBits exact (clock 0) (started 0) ''a:1|x'' [] ''a'' 0 [''1|x'']
       = Return (Some errParsing,
                 (started 0)\<lparr>logged := [(Errorf, ''Metric type %q unsupported'', [S ''x''])]\<rparr>)"
    by (simp only: l)
  from one two show ?thesis by (rule conjI)
qed

text \<open>The claim that a line under an unknown sanitize method is dropped fails: with the method
  \<open>bogus\<close> the line \<^verbatim>\<open>a:1|c\<close> returns no error, logs the method and counts \<open>a = 1\<close>.\<close>

theorem unknown_method_and_type_counterexample:
  "returned_error
     (parseStatsdLine exact (clock 0) ((started 0)\<lparr>SanitizeNamesMethod := ''bogus''\<rparr>) ''a:1|c'')
     = Some None
   \<and> map_option counters
       (returned_state
          (parseStatsdLine exact (clock 0) ((started 0)\<lparr>SanitizeNamesMethod := ''bogus''\<rparr>)
             ''a:1|c''))
      = Some [(''metric_type=countera'',
               \<lparr>cname = ''a'', cfields = [(''value'', Int64 1)],
                ctags = [(''metric_type'', ''counter'')], expiresAt = 0\<rparr>)]
   \<and> map_option logged
       (returned_state
          (parseStatsdLine exact (clock 0) ((started 0)\<lparr>SanitizeNamesMethod := ''bogus''\<rparr>)
             ''a:1|c''))
      = Some [(Errorf, ''Unknown sanitizae name method: %s'', [S ''bogus''])]"
proof -
  have a: "returned_error
     (parseStatsdLine exact (clock 0) ((started 0)\<lparr>SanitizeNamesMethod := ''bogus''\<rparr>) ''a:1|c'')
     = Some None"
    by code_simp
  have b: "map_option counters
       (returned_state
          (parseStatsdLine exact (clock 0) ((started 0)\<lparr>SanitizeNamesMethod := ''bogus''\<rparr>)
             ''a:1|c''))
      = Some [(''metric_type=countera'',
               \<lparr>cname = ''a'', cfields = [(''value'', Int64 1)],
                ctags = [(''metric_type'', ''counter'')], expiresAt = 0\<rparr>)]"
    by code_simp
  have c: "map_option logged
       (returned_state
          (parseStatsdLine exact (clock 0) ((started 0)\<lparr>SanitizeNamesMethod := ''bogus''\<rparr>)
             ''a:1|c''))
      = Some [(Errorf, ''Unknown sanitizae name method: %s'', [S ''bogus''])]"
    by code_simp
  from a b c show ?thesis by blast
qed

end
